theory Spec2Isabelle
  imports Main "HOL-Library.Word" "HOL-Library.Sublist"
begin

unbundle bit_operations_syntax

section \<open>The keyed digest of Node's crypto module\<close>

text \<open>
  Line 50 of the controller calls
  \<^verbatim>\<open>crypto.createHmac('sha256', key).update(msg).digest('hex')\<close>.
  The function belongs to the runtime, not to the repository; it is written out here after
  FIPS 180-4 (SHA-256) and RFC 2104 (HMAC) so that concrete requests can be evaluated.
  Strings are byte strings: a JavaScript string is hashed through its UTF-8 encoding.
\<close>

type_synonym u8 = "8 word"
type_synonym u32 = "32 word"

definition rotr :: "nat \<Rightarrow> u32 \<Rightarrow> u32" where
  "rotr n x = drop_bit n x OR push_bit (32 - n) x"

definition sha_ch :: "u32 \<Rightarrow> u32 \<Rightarrow> u32 \<Rightarrow> u32" where
  "sha_ch e f g = (e AND f) XOR (NOT e AND g)"

definition sha_maj :: "u32 \<Rightarrow> u32 \<Rightarrow> u32 \<Rightarrow> u32" where
  "sha_maj a b c = (a AND b) XOR (a AND c) XOR (b AND c)"

definition big_sigma0 :: "u32 \<Rightarrow> u32" where
  "big_sigma0 a = rotr 2 a XOR rotr 13 a XOR rotr 22 a"

definition big_sigma1 :: "u32 \<Rightarrow> u32" where
  "big_sigma1 e = rotr 6 e XOR rotr 11 e XOR rotr 25 e"

definition small_sigma0 :: "u32 \<Rightarrow> u32" where
  "small_sigma0 w = rotr 7 w XOR rotr 18 w XOR drop_bit 3 w"

definition small_sigma1 :: "u32 \<Rightarrow> u32" where
  "small_sigma1 w = rotr 17 w XOR rotr 19 w XOR drop_bit 10 w"

definition round_constants :: "u32 list" where
  "round_constants =
    [1116352408, 1899447441, 3049323471, 3921009573, 961987163, 1508970993,
     2453635748, 2870763221, 3624381080, 310598401, 607225278, 1426881987,
     1925078388, 2162078206, 2614888103, 3248222580, 3835390401, 4022224774,
     264347078, 604807628, 770255983, 1249150122, 1555081692, 1996064986,
     2554220882, 2821834349, 2952996808, 3210313671, 3336571891, 3584528711,
     113926993, 338241895, 666307205, 773529912, 1294757372, 1396182291,
     1695183700, 1986661051, 2177026350, 2456956037, 2730485921, 2820302411,
     3259730800, 3345764771, 3516065817, 3600352804, 4094571909, 275423344,
     430227734, 506948616, 659060556, 883997877, 958139571, 1322822218,
     1537002063, 1747873779, 1955562222, 2024104815, 2227730452, 2361852424,
     2428436474, 2756734187, 3204031479, 3329325298]"

definition initial_hash :: "u32 list" where
  "initial_hash =
    [1779033703, 3144134277, 1013904242, 2773480762,
     1359893119, 2600822924, 528734635, 1541459225]"

fun be_words :: "u8 list \<Rightarrow> u32 list" where
  "be_words (b3 # b2 # b1 # b0 # bs) =
     (push_bit 24 (ucast b3) OR push_bit 16 (ucast b2) OR push_bit 8 (ucast b1) OR ucast b0)
       # be_words bs"
| "be_words _ = []"

fun schedule :: "nat \<Rightarrow> u32 list \<Rightarrow> u32 list" where
  "schedule 0 w = w"
| "schedule (Suc n) w =
     schedule n (w @ [small_sigma1 (w ! (length w - 2)) + w ! (length w - 7)
                      + small_sigma0 (w ! (length w - 15)) + w ! (length w - 16)])"

fun sha_round :: "u32 list \<Rightarrow> u32 \<times> u32 \<Rightarrow> u32 list" where
  "sha_round [a, b, c, d, e, f, g, h] (k, w) =
     (let t1 = h + big_sigma1 e + sha_ch e f g + k + w;
          t2 = big_sigma0 a + sha_maj a b c
      in [t1 + t2, a, b, c, d + t1, e, f, g])"
| "sha_round s _ = s"

definition compress :: "u32 list \<Rightarrow> u8 list \<Rightarrow> u32 list" where
  "compress h block =
     map2 (+) h (foldl sha_round h (zip round_constants (schedule 48 (be_words block))))"

fun be_bytes :: "nat \<Rightarrow> nat \<Rightarrow> u8 list" where
  "be_bytes 0 v = []"
| "be_bytes (Suc n) v = be_bytes n (v div 256) @ [of_nat (v mod 256)]"

definition pad :: "u8 list \<Rightarrow> u8 list" where
  "pad m = m @ [128] @ replicate ((119 - length m mod 64) mod 64) 0
             @ be_bytes 8 (8 * length m)"

fun absorb :: "nat \<Rightarrow> u32 list \<Rightarrow> u8 list \<Rightarrow> u32 list" where
  "absorb 0 h m = h"
| "absorb (Suc n) h m = absorb n (compress h (take 64 m)) (drop 64 m)"

definition word_bytes :: "u32 \<Rightarrow> u8 list" where
  "word_bytes w = [ucast (drop_bit 24 w), ucast (drop_bit 16 w), ucast (drop_bit 8 w), ucast w]"

definition sha256 :: "u8 list \<Rightarrow> u8 list" where
  "sha256 m = concat (map word_bytes (absorb (length (pad m) div 64) initial_hash (pad m)))"

definition hmac_sha256 :: "u8 list \<Rightarrow> u8 list \<Rightarrow> u8 list" where
  "hmac_sha256 key msg =
     (let k0 = (if 64 < length key then sha256 key else key);
          k = k0 @ replicate (64 - length k0) 0
      in sha256 (map (\<lambda>b. b XOR 92) k @ sha256 (map (\<lambda>b. b XOR 54) k @ msg)))"

definition hex_digit :: "nat \<Rightarrow> char" where
  "hex_digit n = ''0123456789abcdef'' ! n"

definition hex :: "u8 list \<Rightarrow> string" where
  "hex bs = concat (map (\<lambda>b. [hex_digit (unat b div 16), hex_digit (unat b mod 16)]) bs)"

definition utf8 :: "string \<Rightarrow> u8 list" where
  "utf8 s = map of_char s"

definition hmac_sha256_hex :: "string \<Rightarrow> string \<Rightarrow> string" where
  "hmac_sha256_hex key msg = hex (hmac_sha256 (utf8 key) (utf8 msg))"


section \<open>Data model\<close>

type_synonym env = "string \<rightharpoonup> string"

text \<open>\<^verbatim>\<open>interface IConfig\<close> (lines 8-14).\<close>

record IConfig =
  pipelineName :: string
  gitRepoUrl :: string
  deploymentEnvironment :: string
  tlsCertificate :: string
  tlsKey :: string

text \<open>\<^verbatim>\<open>interface IPipelineStep\<close> (lines 16-20).\<close>

record IPipelineStep =
  name :: string
  command :: string
  environmentVariables :: env

text \<open>
  The fields of \<^verbatim>\<open>class SecureDevOpsPipelineController\<close> (lines 23-25). The field
  \<^verbatim>\<open>tlsOptions\<close> only feeds \<^verbatim>\<open>tls.createServer\<close> and is left to the transport.
\<close>

record controller =
  config :: IConfig
  pipelineSteps :: "IPipelineStep list"

text \<open>The constructor (lines 27-34) and \<^verbatim>\<open>addPipelineStep\<close> (lines 36-38).\<close>

definition new_controller :: "IConfig \<Rightarrow> controller" where
  "new_controller cfg = \<lparr>config = cfg, pipelineSteps = []\<rparr>"

definition addPipelineStep :: "controller \<Rightarrow> IPipelineStep \<Rightarrow> controller" where
  "addPipelineStep ctl step = ctl\<lparr>pipelineSteps := pipelineSteps ctl @ [step]\<rparr>"

text \<open>The program's own controller (lines 107-119): a Build step, then a Deploy step.\<close>

definition program_controller :: "IConfig \<Rightarrow> controller" where
  "program_controller cfg =
     addPipelineStep
       (addPipelineStep (new_controller cfg)
          \<lparr>name = ''Build'', command = ''npm run build'',
           environmentVariables = [''NODE_ENV'' \<mapsto> ''production'']\<rparr>)
       \<lparr>name = ''Deploy'', command = ''docker deploy -p '' @ deploymentEnvironment cfg,
        environmentVariables = [''DEPLOYMENT_ENVIRONMENT'' \<mapsto> deploymentEnvironment cfg]\<rparr>"

text \<open>
  What the process is given by its host: \<^verbatim>\<open>process.env\<close>, and the wording of the error
  that line 77 throws. Line 77 is
  \<^verbatim>\<open>const childProcess = childProcess.exec(command, { env: environmentVariables })\<close>:
  its right-hand side reads the constant that the line is initialising, and the file imports
  no child-process module. The read throws before \<^verbatim>\<open>exec\<close> is looked up, before its
  arguments are evaluated and before any child is started. \<open>exec_error\<close> is that error as
  \<^verbatim>\<open>${err}\<close> prints it; the wording is the engine's.
\<close>

record host =
  process_env :: env
  exec_error :: string

text \<open>
  What the program does to the outside, in order. Requests are numbered in order of
  arrival, and \<open>Respond\<close> carries the number of the request it answers, the status and the
  body. Nothing else can happen: lines 78-94, the listeners on the child's output and exit,
  are never reached.
\<close>

datatype effect =
    CreateHmac string string
  | ConsoleLog string
  | Respond nat nat string

text \<open>
  Between requests the program holds nothing: the handler assigns no field and leaves no
  promise pending. The server is the count of the requests taken so far.
\<close>

record server =
  next_request :: nat

definition initial_server :: server where
  "initial_server = \<lparr>next_request = 0\<rparr>"

text \<open>
  A concrete deployment for the examples: the command line of the program (lines 98-105),
  and Node as the engine, whose wording of the error of line 77 is the one below. The
  process has a \<open>PATH\<close>, and its \<open>TRIGGER_TOKEN\<close> is the token of the trigger
  \<open>deploy\<close>.
\<close>

definition demo_config :: IConfig where
  "demo_config =
     \<lparr>pipelineName = ''pipeline'', gitRepoUrl = ''https://example.org/app.git'',
      deploymentEnvironment = ''staging'', tlsCertificate = ''cert.pem'', tlsKey = ''key.pem''\<rparr>"

definition demo_host :: "env \<Rightarrow> host" where
  "demo_host penv =
     \<lparr>process_env = penv,
      exec_error = ''ReferenceError: Cannot access 'childProcess' before initialization''\<rparr>"

definition demo_env :: env where
  "demo_env =
     [''PATH'' \<mapsto> ''/usr/bin'',
      ''TRIGGER_TOKEN'' \<mapsto> hmac_sha256_hex ''pipeline'' ''deploy'']"

definition three_step_controller :: controller where
  "three_step_controller =
     addPipelineStep
       (addPipelineStep
          (addPipelineStep (new_controller demo_config)
             \<lparr>name = ''Build'', command = ''npm run build'',
              environmentVariables = [''NODE_ENV'' \<mapsto> ''production'']\<rparr>)
          \<lparr>name = ''Test'', command = ''npm test'', environmentVariables = Map.empty\<rparr>)
       \<lparr>name = ''Deploy'', command = ''docker deploy -p staging'',
        environmentVariables = [''DEPLOYMENT_ENVIRONMENT'' \<mapsto> ''staging'']\<rparr>"


section \<open>The controller\<close>

text \<open>Line 50.\<close>

definition triggerToken :: "controller \<Rightarrow> string \<Rightarrow> string" where
  "triggerToken ctl trigger = hmac_sha256_hex (pipelineName (config ctl)) trigger"

text \<open>
  The test of line 51, negated: the request passes when
  \<^verbatim>\<open>triggerToken !== process.env.TRIGGER_TOKEN\<close> is false. An unset variable is
  \<^verbatim>\<open>undefined\<close>, which no string equals.
\<close>

definition verify :: "controller \<Rightarrow> host \<Rightarrow> string \<Rightarrow> bool" where
  "verify ctl h trigger \<longleftrightarrow> \<not> (Some (triggerToken ctl trigger) \<noteq> process_env h ''TRIGGER_TOKEN'')"

text \<open>
  The promise of \<^verbatim>\<open>executePipelineSteps\<close> when it is settled: resolved (with no value,
  the function is \<^verbatim>\<open>Promise<void>\<close>), or rejected with a value, kept as \<^verbatim>\<open>${err}\<close>
  prints it.
\<close>

datatype run_state = Resolved | Rejected string

text \<open>
  \<^verbatim>\<open>executeCommand\<close> (lines 76-95). The promise of this \<^verbatim>\<open>async\<close> function is
  resolved (\<open>None\<close>) or rejected (\<open>Some\<close> of the value). Line 77 throws whatever the
  command and the environment are, so the promise is always rejected, with that error.
\<close>

definition executeCommand :: "host \<Rightarrow> string \<Rightarrow> env \<Rightarrow> string option" where
  "executeCommand h cmd environment = Some (exec_error h)"

text \<open>
  \<^verbatim>\<open>executePipelineSteps\<close> (lines 69-74): the loop logs a step and awaits
  \<^verbatim>\<open>executeCommand\<close>; when that is resolved the loop goes on to the next step, when it
  is rejected the \<^verbatim>\<open>await\<close> of line 72 rethrows and the run is rejected with the same
  value. After the last step the run resolves.
\<close>

fun executePipelineSteps :: "host \<Rightarrow> IPipelineStep list \<Rightarrow> run_state \<times> effect list" where
  "executePipelineSteps h [] = (Resolved, [])"
| "executePipelineSteps h (step # rest) =
     (case executeCommand h (command step) (environmentVariables step) of
        Some err \<Rightarrow> (Rejected err, [ConsoleLog (''Executing step: '' @ name step)])
      | None \<Rightarrow>
          (case executePipelineSteps h rest of
             (r, effs) \<Rightarrow> (r, ConsoleLog (''Executing step: '' @ name step) # effs)))"

text \<open>
  The continuations of lines 56-60: a resolved run is answered with the default status 200,
  a rejected one with 500.
\<close>

definition settle :: "nat \<Rightarrow> run_state \<times> effect list \<Rightarrow> effect list" where
  "settle rid r =
     (case fst r of
        Resolved \<Rightarrow> snd r @ [Respond rid 200 ''Pipeline executed successfully'']
      | Rejected err \<Rightarrow> snd r @ [Respond rid 500 (''Error executing pipeline: '' @ err)])"

text \<open>
  The handler of \<^verbatim>\<open>POST /pipeline\<close> (lines 44-61), which \<^verbatim>\<open>runPipeline\<close> registers before
  it starts the TLS server. The trigger is a string when it is present, as the payload of
  the specification has it. The run's promise is settled, and the request answered, before
  the engine takes up the next request.
\<close>

definition post_pipeline ::
  "controller \<Rightarrow> host \<Rightarrow> server \<Rightarrow> string option \<Rightarrow> server \<times> effect list" where
  "post_pipeline ctl h srv trigger =
     (let rid = next_request srv; srv1 = srv\<lparr>next_request := Suc rid\<rparr> in
      case trigger of
        None \<Rightarrow> (srv1, [Respond rid 401 ''Unauthorized''])
      | Some t \<Rightarrow>
          if t = [] then (srv1, [Respond rid 401 ''Unauthorized''])
          else if \<not> verify ctl h t
          then (srv1, [CreateHmac (pipelineName (config ctl)) t, Respond rid 401 ''Unauthorized''])
          else (srv1, CreateHmac (pipelineName (config ctl)) t
                        # settle rid (executePipelineSteps h (pipelineSteps ctl))))"

text \<open>The server: requests are handled one at a time, in order of arrival.\<close>

fun serve :: "controller \<Rightarrow> host \<Rightarrow> server \<Rightarrow> string option list \<Rightarrow> server \<times> effect list" where
  "serve ctl h srv [] = (srv, [])"
| "serve ctl h srv (trigger # later) =
     (case post_pipeline ctl h srv trigger of
        (srv1, effs1) \<Rightarrow>
          (case serve ctl h srv1 later of (srv2, effs2) \<Rightarrow> (srv2, effs1 @ effs2)))"




text \<open>
  A single-bit mutation of a token, for stating what a changed token does: bit \<open>n mod 8\<close>
  of the byte at index \<open>n div 8\<close> is inverted.
\<close>

fun flip_char_bit :: "nat \<Rightarrow> char \<Rightarrow> char" where
  "flip_char_bit j (Char b0 b1 b2 b3 b4 b5 b6 b7) =
     Char (b0 \<noteq> (j = 0)) (b1 \<noteq> (j = 1)) (b2 \<noteq> (j = 2)) (b3 \<noteq> (j = 3))
          (b4 \<noteq> (j = 4)) (b5 \<noteq> (j = 5)) (b6 \<noteq> (j = 6)) (b7 \<noteq> (j = 7))"

definition mutate_bit :: "nat \<Rightarrow> string \<Rightarrow> string" where
  "mutate_bit n p = p[n div 8 := flip_char_bit (n mod 8) (p ! (n div 8))]"


section \<open>The loop\<close>

lemma no_respond_in_run:
  "Respond rid status body \<notin> set (snd (executePipelineSteps h steps))"
  by (induction steps) (auto simp: executeCommand_def split: option.splits prod.splits)



section \<open>Authentication\<close>

text \<open>
  C8. A request whose \<open>trigger\<close> field is missing or empty is answered
  \<open>401 Unauthorized\<close>, and nothing else happens: the digest is not computed.
\<close>

theorem missing_trigger_unauthorized:
  assumes "trigger = None \<or> trigger = Some []"
  shows "post_pipeline ctl h srv trigger =
           (srv\<lparr>next_request := Suc (next_request srv)\<rparr>,
            [Respond (next_request srv) 401 ''Unauthorized''])"
  using assms by (auto simp: post_pipeline_def Let_def)

theorem missing_trigger_unauthorized_witness:
  "post_pipeline (program_controller demo_config) (demo_host Map.empty) initial_server None =
     (initial_server\<lparr>next_request := Suc (next_request initial_server)\<rparr>,
      [Respond (next_request initial_server) 401 ''Unauthorized''])
   \<and> post_pipeline (program_controller demo_config) (demo_host Map.empty) initial_server
       (Some []) =
     (initial_server\<lparr>next_request := Suc (next_request initial_server)\<rparr>,
      [Respond (next_request initial_server) 401 ''Unauthorized''])"
  using missing_trigger_unauthorized [of None] missing_trigger_unauthorized [of "Some []"]
  by simp


subsection \<open>The digest is 64 hexadecimal characters\<close>

lemma length_sha_round: "length (sha_round s kw) = length s"
  by (induction s kw rule: sha_round.induct) (simp_all add: Let_def)

lemma length_foldl_sha_round: "length (foldl sha_round s kws) = length s"
  by (induction kws arbitrary: s) (simp_all add: length_sha_round)

lemma length_compress: "length (compress h block) = length h"
  by (simp add: compress_def length_foldl_sha_round)

lemma length_absorb: "length (absorb n h m) = length h"
  by (induction n arbitrary: h m) (simp_all add: length_compress)

lemma length_concat_word_bytes: "length (concat (map word_bytes ws)) = 4 * length ws"
  by (induction ws) (simp_all add: word_bytes_def)

lemma length_sha256: "length (sha256 m) = 32"
  by (simp add: sha256_def length_concat_word_bytes length_absorb initial_hash_def)

lemma length_hex: "length (hex bs) = 2 * length bs"
  by (induction bs) (simp_all add: hex_def)

lemma length_hmac_sha256_hex: "length (hmac_sha256_hex key msg) = 64"
  by (simp add: hmac_sha256_hex_def hmac_sha256_def Let_def length_hex length_sha256)

subsection \<open>Digests of concrete inputs\<close>

text \<open>The one-block example of FIPS 180-4, and the two digests the examples below use.\<close>

lemma sha256_abc:
  "hex (sha256 (utf8 ''abc'')) =
     ''ba7816bf8f01cfea414140de5dae2223b00361a396177a9cb410ff61f20015ad''"
  by code_simp

lemma hmac_pipeline_deploy:
  "hmac_sha256_hex ''pipeline'' ''deploy'' =
     ''61c186180749d4974929206a9bcdcfcaae3a9efc0661249f4475356c943b3aa4''"
  by code_simp

lemma hmac_secret_deploy:
  "hmac_sha256_hex ''secret'' ''deploy'' =
     ''c8d2306aba2488478b26f267d68f4aa9e2269ab83f914b12c46ebcf3561a81d7''"
  by code_simp

subsection \<open>A mutated token is another token\<close>

lemma flip_char_bit_neq:
  assumes "j < 8"
  shows "flip_char_bit j c \<noteq> c"
proof (cases c)
  case (Char b0 b1 b2 b3 b4 b5 b6 b7)
  from assms have "j = 0 \<or> j = 1 \<or> j = 2 \<or> j = 3 \<or> j = 4 \<or> j = 5 \<or> j = 6 \<or> j = 7"
    by arith
  with Char show ?thesis by auto
qed

lemma mutate_bit_neq:
  assumes "n < 8 * length p"
  shows "mutate_bit n p \<noteq> p"
proof
  assume same: "mutate_bit n p = p"
  from assms have i: "n div 8 < length p" by simp
  have "mutate_bit n p ! (n div 8) = flip_char_bit (n mod 8) (p ! (n div 8))"
    using i by (simp add: mutate_bit_def)
  with same have "flip_char_bit (n mod 8) (p ! (n div 8)) = p ! (n div 8)" by simp
  moreover have "n mod 8 < 8" by simp
  ultimately show False using flip_char_bit_neq by blast
qed

text \<open>
  C1, as the code has it. The check of lines 50-51 passes exactly when the token the process
  was given in \<open>TRIGGER_TOKEN\<close> is the hexadecimal HMAC-SHA256 of the trigger keyed by
  the pipeline's name; no other secret takes part. A token that differs from that digest in
  a single bit does not pass.
\<close>

theorem verify_keyed_by_pipeline_name:
  "(verify ctl h t \<longleftrightarrow>
      process_env h ''TRIGGER_TOKEN'' = Some (hmac_sha256_hex (pipelineName (config ctl)) t))
   \<and> (n < 8 * length (hmac_sha256_hex (pipelineName (config ctl)) t)
        \<and> process_env h ''TRIGGER_TOKEN''
            = Some (mutate_bit n (hmac_sha256_hex (pipelineName (config ctl)) t))
        \<longrightarrow> \<not> verify ctl h t)"
proof -
  have "mutate_bit n (hmac_sha256_hex (pipelineName (config ctl)) t)
          \<noteq> hmac_sha256_hex (pipelineName (config ctl)) t"
    if "n < 8 * length (hmac_sha256_hex (pipelineName (config ctl)) t)"
    using that by (rule mutate_bit_neq)
  then show ?thesis by (auto simp: verify_def triggerToken_def)
qed

theorem verify_keyed_by_pipeline_name_witness:
  "verify (program_controller demo_config)
      (demo_host [''TRIGGER_TOKEN'' \<mapsto> hmac_sha256_hex ''pipeline'' ''deploy'']) ''deploy''
   \<and> \<not> verify (program_controller demo_config)
      (demo_host [''TRIGGER_TOKEN'' \<mapsto> mutate_bit 3 (hmac_sha256_hex ''pipeline'' ''deploy'')])
      ''deploy''"
proof -
  have name: "pipelineName (config (program_controller demo_config)) = ''pipeline''"
    by (simp add: program_controller_def addPipelineStep_def new_controller_def demo_config_def)
  have inside: "3 < 8 * length (hmac_sha256_hex ''pipeline'' ''deploy'')"
    by (simp add: length_hmac_sha256_hex)
  have passes: "verify (program_controller demo_config)
      (demo_host [''TRIGGER_TOKEN'' \<mapsto> hmac_sha256_hex ''pipeline'' ''deploy'']) ''deploy''"
    using verify_keyed_by_pipeline_name [where ctl = "program_controller demo_config"
            and h = "demo_host [''TRIGGER_TOKEN'' \<mapsto> hmac_sha256_hex ''pipeline'' ''deploy'']"
            and t = "''deploy''" and n = 3, THEN conjunct1]
    by (simp add: name demo_host_def)
  have fails: "\<not> verify (program_controller demo_config)
      (demo_host [''TRIGGER_TOKEN'' \<mapsto> mutate_bit 3 (hmac_sha256_hex ''pipeline'' ''deploy'')])
      ''deploy''"
    using verify_keyed_by_pipeline_name [where ctl = "program_controller demo_config"
            and h = "demo_host
              [''TRIGGER_TOKEN'' \<mapsto> mutate_bit 3 (hmac_sha256_hex ''pipeline'' ''deploy'')]"
            and t = "''deploy''" and n = 3, THEN conjunct2] inside
    by (simp add: name demo_host_def)
  from passes fails show ?thesis by (rule conjI)
qed

text \<open>
  C1, as stated, fails: with pipeline name \<open>pipeline\<close>, secret \<open>secret\<close> and trigger
  \<open>deploy\<close>, the token HMAC-SHA256(secret, deploy) is refused, because the code keys
  the digest with the pipeline's name.
\<close>

theorem verify_ignores_secret_counterexample:
  "\<not> verify (program_controller demo_config)
       (demo_host [''TRIGGER_TOKEN'' \<mapsto> hmac_sha256_hex ''secret'' ''deploy'']) ''deploy''"
proof -
  have name: "pipelineName (config (program_controller demo_config)) = ''pipeline''"
    by (simp add: program_controller_def addPipelineStep_def new_controller_def demo_config_def)
  have "hmac_sha256_hex ''pipeline'' ''deploy'' \<noteq> hmac_sha256_hex ''secret'' ''deploy''"
    unfolding hmac_pipeline_deploy hmac_secret_deploy by simp
  then show ?thesis by (simp add: verify_def triggerToken_def name demo_host_def)
qed

text \<open>
  C10. A request with a non-empty trigger is answered \<open>401 Unauthorized\<close> exactly when
  the hexadecimal HMAC-SHA256 of the trigger under the pipeline's name differs from the
  variable \<open>TRIGGER_TOKEN\<close> of the process; otherwise the run is started. With the
  variable unset the answer is always 401.
\<close>

theorem trigger_checked_against_env_token:
  assumes "t \<noteq> []"
  shows "(Respond (next_request srv) 401 ''Unauthorized'' \<in> set (snd (post_pipeline ctl h srv (Some t)))
            \<longleftrightarrow> process_env h ''TRIGGER_TOKEN'' \<noteq> Some (hmac_sha256_hex (pipelineName (config ctl)) t))
       \<and> (process_env h ''TRIGGER_TOKEN'' \<noteq> Some (hmac_sha256_hex (pipelineName (config ctl)) t) \<longrightarrow>
            post_pipeline ctl h srv (Some t) =
              (srv\<lparr>next_request := Suc (next_request srv)\<rparr>,
               [CreateHmac (pipelineName (config ctl)) t,
                Respond (next_request srv) 401 ''Unauthorized'']))
       \<and> (process_env h ''TRIGGER_TOKEN'' = Some (hmac_sha256_hex (pipelineName (config ctl)) t) \<longrightarrow>
            post_pipeline ctl h srv (Some t) =
              (srv\<lparr>next_request := Suc (next_request srv)\<rparr>,
               CreateHmac (pipelineName (config ctl)) t
                 # settle (next_request srv) (executePipelineSteps h (pipelineSteps ctl))))
       \<and> (process_env h ''TRIGGER_TOKEN'' = None \<longrightarrow>
            post_pipeline ctl h srv (Some t) =
              (srv\<lparr>next_request := Suc (next_request srv)\<rparr>,
               [CreateHmac (pipelineName (config ctl)) t,
                Respond (next_request srv) 401 ''Unauthorized'']))"
proof -
  let ?tok = "hmac_sha256_hex (pipelineName (config ctl)) t"
  let ?rid = "next_request srv"
  let ?run = "settle ?rid (executePipelineSteps h (pipelineSteps ctl))"
  have no401: "Respond ?rid 401 ''Unauthorized'' \<notin> set ?run"
    using no_respond_in_run [of ?rid 401 "''Unauthorized''" h "pipelineSteps ctl"]
    by (cases "fst (executePipelineSteps h (pipelineSteps ctl))") (auto simp: settle_def)
  have ok: "post_pipeline ctl h srv (Some t) =
              (srv\<lparr>next_request := Suc ?rid\<rparr>, CreateHmac (pipelineName (config ctl)) t # ?run)"
    if "process_env h ''TRIGGER_TOKEN'' = Some ?tok"
    using that assms
    by (simp add: post_pipeline_def verify_def triggerToken_def Let_def)
  have bad: "post_pipeline ctl h srv (Some t) =
               (srv\<lparr>next_request := Suc ?rid\<rparr>,
                [CreateHmac (pipelineName (config ctl)) t, Respond ?rid 401 ''Unauthorized''])"
    if "process_env h ''TRIGGER_TOKEN'' \<noteq> Some ?tok"
    using that assms
    by (auto simp: post_pipeline_def verify_def triggerToken_def Let_def)
  show ?thesis using ok bad no401 by (cases "process_env h ''TRIGGER_TOKEN'' = Some ?tok") auto
qed

theorem trigger_checked_against_env_token_witness:
  "post_pipeline (program_controller demo_config) (demo_host Map.empty) initial_server
       (Some ''deploy'') =
     (initial_server\<lparr>next_request := Suc (next_request initial_server)\<rparr>,
      [CreateHmac (pipelineName (config (program_controller demo_config))) ''deploy'',
       Respond (next_request initial_server) 401 ''Unauthorized''])
   \<and> Respond (next_request initial_server) 401 ''Unauthorized''
       \<notin> set (snd (post_pipeline (program_controller demo_config)
                 (demo_host [''TRIGGER_TOKEN'' \<mapsto> hmac_sha256_hex ''pipeline'' ''deploy''])
                 initial_server (Some ''deploy'')))"
proof -
  have name: "pipelineName (config (program_controller demo_config)) = ''pipeline''"
    by (simp add: program_controller_def addPipelineStep_def new_controller_def demo_config_def)
  have ne: "''deploy'' \<noteq> []" by simp
  have unset: "process_env (demo_host Map.empty) ''TRIGGER_TOKEN'' = None"
    by (simp add: demo_host_def)
  have matching:
    "process_env (demo_host [''TRIGGER_TOKEN'' \<mapsto> hmac_sha256_hex ''pipeline'' ''deploy''])
       ''TRIGGER_TOKEN'' = Some (hmac_sha256_hex ''pipeline'' ''deploy'')"
    by (simp add: demo_host_def)
  have rejected: "post_pipeline (program_controller demo_config) (demo_host Map.empty)
       initial_server (Some ''deploy'') =
     (initial_server\<lparr>next_request := Suc (next_request initial_server)\<rparr>,
      [CreateHmac (pipelineName (config (program_controller demo_config))) ''deploy'',
       Respond (next_request initial_server) 401 ''Unauthorized''])"
    using trigger_checked_against_env_token [OF ne, of initial_server
            "program_controller demo_config" "demo_host Map.empty"] unset
    by blast
  have accepted: "Respond (next_request initial_server) 401 ''Unauthorized''
       \<notin> set (snd (post_pipeline (program_controller demo_config)
                 (demo_host [''TRIGGER_TOKEN'' \<mapsto> hmac_sha256_hex ''pipeline'' ''deploy''])
                 initial_server (Some ''deploy'')))"
    using trigger_checked_against_env_token [OF ne, of initial_server
            "program_controller demo_config"
            "demo_host [''TRIGGER_TOKEN'' \<mapsto> hmac_sha256_hex ''pipeline'' ''deploy'']",
            THEN conjunct1]
          matching name
    by simp
  from rejected accepted show ?thesis by (rule conjI)
qed

section \<open>Runs\<close>

subsection \<open>The example deployment\<close>

lemma demo_verify:
  "verify (program_controller demo_config) (demo_host demo_env) ''deploy''"
  "verify three_step_controller (demo_host demo_env) ''deploy''"
  by (simp_all add: verify_def triggerToken_def program_controller_def three_step_controller_def
        addPipelineStep_def new_controller_def demo_config_def demo_host_def demo_env_def)

lemma demo_steps:
  "pipelineSteps (program_controller demo_config) =
     [\<lparr>name = ''Build'', command = ''npm run build'',
       environmentVariables = [''NODE_ENV'' \<mapsto> ''production'']\<rparr>,
      \<lparr>name = ''Deploy'', command = ''docker deploy -p staging'',
       environmentVariables = [''DEPLOYMENT_ENVIRONMENT'' \<mapsto> ''staging'']\<rparr>]"
  "pipelineSteps three_step_controller =
     [\<lparr>name = ''Build'', command = ''npm run build'',
       environmentVariables = [''NODE_ENV'' \<mapsto> ''production'']\<rparr>,
      \<lparr>name = ''Test'', command = ''npm test'', environmentVariables = Map.empty\<rparr>,
      \<lparr>name = ''Deploy'', command = ''docker deploy -p staging'',
       environmentVariables = [''DEPLOYMENT_ENVIRONMENT'' \<mapsto> ''staging'']\<rparr>]"
  by (simp_all add: program_controller_def three_step_controller_def addPipelineStep_def
        new_controller_def demo_config_def)

lemma demo_names:
  "pipelineName (config (program_controller demo_config)) = ''pipeline''"
  "pipelineName (config three_step_controller) = ''pipeline''"
  by (simp_all add: program_controller_def three_step_controller_def addPipelineStep_def
        new_controller_def demo_config_def)

lemma demo_exec:
  "executeCommand (demo_host penv) cmd e =
     Some ''ReferenceError: Cannot access 'childProcess' before initialization''"
  by (simp add: executeCommand_def demo_host_def)

lemma demo_program_request:
  "post_pipeline (program_controller demo_config) (demo_host demo_env) srv (Some ''deploy'') =
     (srv\<lparr>next_request := Suc (next_request srv)\<rparr>,
      [CreateHmac ''pipeline'' ''deploy'',
       ConsoleLog ''Executing step: Build'',
       Respond (next_request srv) 500
         ''Error executing pipeline: ReferenceError: Cannot access 'childProcess' before initialization''])"
  using demo_verify(1)
  by (simp add: post_pipeline_def Let_def settle_def demo_steps demo_names demo_exec)

subsection \<open>A run that is rejected\<close>







subsection \<open>The program's pipeline\<close>

text \<open>
  C6, on the program's own pipeline. Whatever the commands of Build and Deploy would exit
  with, also when both would exit with 0, the run is rejected at Build by the error of line
  77 and the request is answered \<open>500\<close>, not \<open>200\<close>.
\<close>

theorem program_pipeline_never_succeeds:
  "serve (program_controller demo_config) (demo_host demo_env) initial_server
     [Some ''deploy''] =
   (\<lparr>next_request = 1\<rparr>,
    [CreateHmac ''pipeline'' ''deploy'',
     ConsoleLog ''Executing step: Build'',
     Respond 0 500
       ''Error executing pipeline: ReferenceError: Cannot access 'childProcess' before initialization''])"
  by (simp add: demo_program_request initial_server_def)


subsection \<open>Requests one after another\<close>















end
